theory Spec2Isabelle
  imports Complex_Main "HOL-Library.AList"
begin

section \<open>Values, errors and the interpreter state\<close>

text \<open>
  The program is the notebook \<^verbatim>\<open>lecture-hyperparameter-tuning.ipynb\<close>: eight code cells
  run in order over one interpreter namespace. Values are dynamically typed, as in
  Python. Floats are modelled as reals; a list and a tuple are both \<open>VList\<close>; an object
  of a library class is \<open>VObj\<close> with its class name and its attributes.
\<close>

datatype val =
    VNone
  | VBool bool
  | VInt int
  | VFloat real
  | VStr string
  | VList "val list"
  | VDict "(string \<times> val) list"
  | VModule string
  | VFunc string
  | VObj string "(string \<times> val) list"

datatype error =
    NameError string
  | ModuleNotFoundError string
  | AttributeError string
  | KeyError string
  | TypeError string
  | ValueError string
  | LibraryError string

datatype out = Print "val list" | Display val

type_synonym kwargs = "(string \<times> val) list"

text \<open>
  The interpreter state: the global namespace, the importable top-level modules of the
  installed package environment, the interpreter-global warnings filter list, what the
  notebook has printed, and the qualified names of the library calls made so far.
\<close>

record state =
  ns :: "string \<rightharpoonup> val"
  site :: "string list"
  filters :: "string list"
  stdout :: "out list"
  calls :: "string list"

text \<open>
  The third-party libraries and the package installer are not part of the repository:
  they are a parameter. \<open>call\<close> is a library function, constructor or method applied to
  positional and keyword arguments; \<open>scall\<close> is a call that draws from the global random
  state of the run (a search built without \<open>random_state\<close>); \<open>maximize\<close> is
  \<open>BayesianOptimization.maximize\<close>, which receives the objective function it calls
  back; \<open>pip_install\<close> gives the importable modules after \<open>pip install\<close> of a package.
  The console output the libraries write themselves is not modelled.
\<close>

record lib =
  call :: "string \<Rightarrow> val list \<Rightarrow> kwargs \<Rightarrow> error + val"
  scall :: "nat \<Rightarrow> string \<Rightarrow> val list \<Rightarrow> kwargs \<Rightarrow> error + val"
  maximize :: "nat \<Rightarrow> (kwargs \<Rightarrow> error + val) \<Rightarrow> val \<Rightarrow> kwargs \<Rightarrow> error + val"
  pip_install :: "string \<Rightarrow> string list \<Rightarrow> string list"

section \<open>Statements: a state and exception monad\<close>

type_synonym 'a m = "state \<Rightarrow> error + ('a \<times> state)"

definition ret :: "'a \<Rightarrow> 'a m" where
  "ret a s = Inr (a, s)"

definition raise :: "error \<Rightarrow> 'a m" where
  "raise e s = Inl e"

definition bnd :: "'a m \<Rightarrow> ('a \<Rightarrow> 'b m) \<Rightarrow> 'b m" where
  "bnd f g s = (case f s of Inl e \<Rightarrow> Inl e | Inr (a, s') \<Rightarrow> g a s')"

definition seq :: "unit m \<Rightarrow> 'b m \<Rightarrow> 'b m" where
  "seq f g = bnd f (\<lambda>_. g)"

definition lift :: "error + 'a \<Rightarrow> 'a m" where
  "lift r s = (case r of Inl e \<Rightarrow> Inl e | Inr a \<Rightarrow> Inr (a, s))"

text \<open>Reading a name that is not bound raises \<open>NameError\<close>.\<close>

definition name :: "string \<Rightarrow> val m" where
  "name x s = (case ns s x of None \<Rightarrow> Inl (NameError x) | Some v \<Rightarrow> Inr (v, s))"

definition assign :: "string \<Rightarrow> val \<Rightarrow> unit m" where
  "assign x v s = Inr ((), s\<lparr>ns := (ns s)(x \<mapsto> v)\<rparr>)"

definition print :: "val list \<Rightarrow> unit m" where
  "print vs s = Inr ((), s\<lparr>stdout := stdout s @ [Print vs]\<rparr>)"

definition display :: "val \<Rightarrow> unit m" where
  "display v s = Inr ((), s\<lparr>stdout := stdout s @ [Display v]\<rparr>)"

text \<open>
  \<open>import a.b\<close> and \<open>from a.b import c\<close> succeed when the top-level package \<open>a\<close> is
  installed, and raise \<open>ModuleNotFoundError\<close> otherwise.
\<close>

definition top_level :: "string \<Rightarrow> string" where
  "top_level m = takeWhile (\<lambda>c. c \<noteq> CHR ''.'') m"

definition import_as :: "string \<Rightarrow> string \<Rightarrow> unit m" where
  "import_as m x s =
     (if top_level m \<in> set (site s) then assign x (VModule m) s
      else Inl (ModuleNotFoundError (top_level m)))"

definition from_import :: "string \<Rightarrow> string \<Rightarrow> unit m" where
  "from_import m x s =
     (if top_level m \<in> set (site s) then assign x (VFunc (m @ ''.'' @ x)) s
      else Inl (ModuleNotFoundError (top_level m)))"

text \<open>Attribute access \<open>v.a\<close>, subscripting \<open>d[k]\<close> and item assignment \<open>d[k] = v\<close>.\<close>

definition getattr :: "val \<Rightarrow> string \<Rightarrow> error + val" where
  "getattr v a =
     (case v of
        VModule m \<Rightarrow> Inr (VFunc (m @ ''.'' @ a))
      | VObj c fs \<Rightarrow> (case map_of fs a of None \<Rightarrow> Inl (AttributeError a) | Some w \<Rightarrow> Inr w)
      | _ \<Rightarrow> Inl (AttributeError a))"

definition getitem :: "val \<Rightarrow> string \<Rightarrow> error + val" where
  "getitem v k =
     (case v of
        VDict kvs \<Rightarrow> (case map_of kvs k of None \<Rightarrow> Inl (KeyError k) | Some w \<Rightarrow> Inr w)
      | _ \<Rightarrow> Inl (TypeError ''not subscriptable''))"

definition setitem :: "val \<Rightarrow> string \<Rightarrow> val \<Rightarrow> error + val" where
  "setitem v k w =
     (case v of
        VDict kvs \<Rightarrow> Inr (VDict (AList.update k w kvs))
      | _ \<Rightarrow> Inl (TypeError ''item assignment''))"

text \<open>
  Calling a value: a library function or class is called through the library; a method
  \<open>obj.f(...)\<close> of a library object is the library function \<open>Class.f\<close> applied to the
  object. Each call is logged in \<open>calls\<close>.
\<close>

definition called :: "string \<Rightarrow> unit m" where
  "called q s = Inr ((), s\<lparr>calls := calls s @ [q]\<rparr>)"

definition callv :: "lib \<Rightarrow> val \<Rightarrow> val list \<Rightarrow> kwargs \<Rightarrow> val m" where
  "callv L f args kw =
     (case f of
        VFunc q \<Rightarrow> seq (called q) (lift (call L q args kw))
      | _ \<Rightarrow> raise (TypeError ''not callable''))"

definition method_name :: "val \<Rightarrow> string \<Rightarrow> error + string" where
  "method_name obj f =
     (case obj of VObj c fs \<Rightarrow> Inr (c @ ''.'' @ f) | _ \<Rightarrow> Inl (AttributeError f))"

definition callm :: "lib \<Rightarrow> val \<Rightarrow> string \<Rightarrow> val list \<Rightarrow> kwargs \<Rightarrow> val m" where
  "callm L obj f args kw =
     bnd (lift (method_name obj f)) (\<lambda>q.
     seq (called q) (lift (call L q (obj # args) kw)))"

definition scallm :: "lib \<Rightarrow> nat \<Rightarrow> val \<Rightarrow> string \<Rightarrow> val list \<Rightarrow> kwargs \<Rightarrow> val m" where
  "scallm L rng obj f args kw =
     bnd (lift (method_name obj f)) (\<lambda>q.
     seq (called q) (lift (scall L rng q (obj # args) kw)))"

text \<open>
  The builtin \<open>int(x)\<close>: a float is truncated towards zero; any other kind of value is
  left to the interpreter's builtin, reached through the library parameter.
\<close>

definition trunc :: "real \<Rightarrow> int" where
  "trunc r = (if 0 \<le> r then \<lfloor>r\<rfloor> else \<lceil>r\<rceil>)"

definition py_int :: "lib \<Rightarrow> val \<Rightarrow> error + val" where
  "py_int L v =
     (case v of
        VInt i \<Rightarrow> Inr (VInt i)
      | VBool b \<Rightarrow> Inr (VInt (if b then 1 else 0))
      | VFloat r \<Rightarrow> Inr (VInt (trunc r))
      | _ \<Rightarrow> call L ''builtins.int'' [v] [])"

text \<open>Unpacking a sequence of four into four names.\<close>

definition unpack4 :: "string \<Rightarrow> string \<Rightarrow> string \<Rightarrow> string \<Rightarrow> val \<Rightarrow> unit m" where
  "unpack4 a b c d v =
     (case v of
        VList [va, vb, vc, vd] \<Rightarrow>
          seq (assign a va) (seq (assign b vb) (seq (assign c vc) (assign d vd)))
      | VList _ \<Rightarrow> raise (ValueError ''unpack'')
      | _ \<Rightarrow> raise (TypeError ''unpack''))"

section \<open>The cells of the notebook\<close>

text \<open>
  Cell 2: the imports, the wine dataset, the feature table and the train/test split.
\<close>

definition cell_2 :: "lib \<Rightarrow> unit m" where
  "cell_2 L =
     seq (import_as ''numpy'' ''np'')
    (seq (import_as ''pandas'' ''pd'')
    (seq (from_import ''sklearn.datasets'' ''load_wine'')
    (seq (from_import ''sklearn.model_selection'' ''train_test_split'')
    (seq (import_as ''xgboost'' ''xgb'')
    (bnd (name ''load_wine'') (\<lambda>f.
     bnd (callv L f [] []) (\<lambda>wine.
     seq (assign ''wine'' wine)
    (bnd (name ''pd'') (\<lambda>pd.
     bnd (lift (getattr pd ''DataFrame'')) (\<lambda>df.
     bnd (name ''wine'') (\<lambda>w1.
     bnd (lift (getattr w1 ''data'')) (\<lambda>wdata.
     bnd (name ''wine'') (\<lambda>w2.
     bnd (lift (getattr w2 ''feature_names'')) (\<lambda>cols.
     bnd (callv L df [wdata] [(''columns'', cols)]) (\<lambda>X.
     seq (assign ''X'' X)
    (bnd (name ''wine'') (\<lambda>w3.
     bnd (lift (getattr w3 ''target'')) (\<lambda>y.
     seq (assign ''y'' y)
    (bnd (name ''train_test_split'') (\<lambda>tts.
     bnd (name ''X'') (\<lambda>X.
     bnd (name ''y'') (\<lambda>y.
     bnd (callv L tts [X, y] [(''test_size'', VFloat 0.2), (''random_state'', VInt 42)])
       (unpack4 ''X_train'' ''X_test'' ''y_train'' ''y_test'')))))))))))))))))))))))"

text \<open>Cell 3: the grid search.\<close>

definition param_grid :: val where
  "param_grid = VDict
     [(''learning_rate'', VList [VFloat 0.01, VFloat 0.5]),
      (''max_depth'', VList [VInt 3, VInt 7]),
      (''min_child_weight'', VList [VInt 3, VInt 5]),
      (''subsample'', VList [VFloat 0.5, VFloat 0.7]),
      (''colsample_bytree'', VList [VFloat 0.5, VFloat 0.7]),
      (''n_estimators'', VList [VInt 100, VInt 200]),
      (''objective'', VList [VStr ''multi:softmax''])]"

definition cell_3 :: "lib \<Rightarrow> unit m" where
  "cell_3 L =
     seq (from_import ''sklearn.model_selection'' ''GridSearchCV'')
    (seq (assign ''param_grid'' param_grid)
    (bnd (name ''xgb'') (\<lambda>xgb.
     bnd (lift (getattr xgb ''XGBClassifier'')) (\<lambda>cls.
     bnd (callv L cls [] []) (\<lambda>clf.
     seq (assign ''clf'' clf)
    (bnd (name ''GridSearchCV'') (\<lambda>gscv.
     bnd (name ''clf'') (\<lambda>clf.
     bnd (name ''param_grid'') (\<lambda>pg.
     bnd (callv L gscv [clf, pg]
            [(''scoring'', VStr ''accuracy''), (''cv'', VInt 3), (''verbose'', VInt 1)]) (\<lambda>gs.
     seq (assign ''grid_search'' gs)
    (bnd (name ''grid_search'') (\<lambda>gs.
     bnd (name ''X_train'') (\<lambda>xtr.
     bnd (name ''y_train'') (\<lambda>ytr.
     bnd (callm L gs ''fit'' [xtr, ytr] []) (\<lambda>fitted.
     seq (assign ''grid_search'' fitted)
    (bnd (name ''grid_search'') (\<lambda>gs.
     bnd (lift (getattr gs ''best_params_'')) (\<lambda>bp.
     seq (print [VStr ''Best parameters found: '', bp])
    (bnd (name ''grid_search'') (\<lambda>gs.
     bnd (lift (getattr gs ''best_score_'')) (\<lambda>bs.
     print [VStr ''Best score'', bs])))))))))))))))))))))"

text \<open>
  Cell 5: the two ways to a new model. \<open>**d\<close> passes the items of the dictionary
  \<open>d\<close> as keyword arguments.
\<close>

definition splat :: "val \<Rightarrow> error + kwargs" where
  "splat v = (case v of VDict kvs \<Rightarrow> Inr kvs | _ \<Rightarrow> Inl (TypeError ''not a mapping''))"

definition cell_5 :: "lib \<Rightarrow> unit m" where
  "cell_5 L =
     bnd (name ''grid_search'') (\<lambda>gs.
     bnd (lift (getattr gs ''best_estimator_'')) (\<lambda>be.
     seq (assign ''best_model'' be)
    (bnd (name ''xgb'') (\<lambda>xgb.
     bnd (lift (getattr xgb ''XGBClassifier'')) (\<lambda>cls.
     bnd (name ''grid_search'') (\<lambda>gs.
     bnd (lift (getattr gs ''best_params_'')) (\<lambda>bp.
     bnd (lift (splat bp)) (\<lambda>kw.
     bnd (callv L cls [] kw) (\<lambda>m.
     assign ''new_model'' m)))))))))"

text \<open>
  Cell 7: the random search, over the classifier \<open>clf\<close> of cell 3. The three
  \<open>np.linspace\<close> calls of the dictionary literal are made before it is bound.
\<close>

definition param_dist :: "val \<Rightarrow> val \<Rightarrow> val \<Rightarrow> val" where
  "param_dist lr ss cs = VDict
     [(''learning_rate'', lr),
      (''max_depth'', VList [VInt 3, VInt 4, VInt 5, VInt 6, VInt 7, VInt 8, VInt 9, VInt 10]),
      (''min_child_weight'', VList [VInt 1, VInt 2, VInt 3, VInt 4, VInt 5]),
      (''subsample'', ss),
      (''colsample_bytree'', cs),
      (''n_estimators'', VList [VInt 100, VInt 200, VInt 300, VInt 400, VInt 500]),
      (''objective'', VList [VStr ''multi:softmax''])]"

definition cell_7 :: "lib \<Rightarrow> nat \<Rightarrow> unit m" where
  "cell_7 L rng =
     seq (from_import ''sklearn.model_selection'' ''RandomizedSearchCV'')
    (bnd (name ''np'') (\<lambda>np1.
     bnd (lift (getattr np1 ''linspace'')) (\<lambda>ls1.
     bnd (callv L ls1 [VFloat 0.01, VInt 1, VInt 10] []) (\<lambda>lr.
     bnd (name ''np'') (\<lambda>np2.
     bnd (lift (getattr np2 ''linspace'')) (\<lambda>ls2.
     bnd (callv L ls2 [VFloat 0.5, VInt 1, VInt 6] []) (\<lambda>ss.
     bnd (name ''np'') (\<lambda>np3.
     bnd (lift (getattr np3 ''linspace'')) (\<lambda>ls3.
     bnd (callv L ls3 [VFloat 0.5, VInt 1, VInt 6] []) (\<lambda>cs.
     seq (assign ''param_dist'' (param_dist lr ss cs))
    (bnd (name ''RandomizedSearchCV'') (\<lambda>rscv.
     bnd (name ''clf'') (\<lambda>clf.
     bnd (name ''param_dist'') (\<lambda>pd.
     bnd (callv L rscv [clf]
            [(''param_distributions'', pd), (''scoring'', VStr ''accuracy''), (''cv'', VInt 3),
             (''verbose'', VInt 1), (''n_iter'', VInt 50)]) (\<lambda>rs.
     seq (assign ''rand_search'' rs)
    (bnd (name ''rand_search'') (\<lambda>rs.
     bnd (name ''X_train'') (\<lambda>xtr.
     bnd (name ''y_train'') (\<lambda>ytr.
     bnd (scallm L rng rs ''fit'' [xtr, ytr] []) (\<lambda>fitted.
     seq (assign ''rand_search'' fitted)
    (bnd (name ''rand_search'') (\<lambda>rs.
     bnd (lift (getattr rs ''best_params_'')) (\<lambda>bp.
     seq (print [VStr ''Best parameters found: '', bp])
    (bnd (name ''rand_search'') (\<lambda>rs.
     bnd (lift (getattr rs ''best_score_'')) (\<lambda>bs.
     print [VStr ''Best score'', bs]))))))))))))))))))))))))))"

text \<open>Cell 8: the value of the last expression of a cell is displayed.\<close>

definition cell_8 :: "unit m" where
  "cell_8 =
     bnd (name ''rand_search'') (\<lambda>rs.
     bnd (lift (getattr rs ''best_score_'')) display)"

text \<open>Cell 10: \<open>!pip install bayesian-optimization\<close>. A shell command raises nothing.\<close>

definition cell_10 :: "lib \<Rightarrow> unit m" where
  "cell_10 L s = Inr ((), s\<lparr>site := pip_install L ''bayesian-optimization'' (site s)\<rparr>)"

text \<open>
  Cell 11: \<open>warnings\<close> is a module of the standard library; \<open>filterwarnings\<close> puts its
  action at the front of the interpreter's filter list.
\<close>

definition filterwarnings :: "string \<Rightarrow> unit m" where
  "filterwarnings action s = Inr ((), s\<lparr>filters := action # filters s\<rparr>)"

definition cell_11 :: "unit m" where
  "cell_11 =
     seq (assign ''warnings'' (VModule ''warnings''))
    (bnd (name ''warnings'') (\<lambda>w. filterwarnings ''ignore''))"

text \<open>
  Cell 12: the Bayesian optimisation. \<open>xgb_evaluate\<close> is the one function the notebook
  defines. It reads the globals \<open>XGBClassifier\<close>, \<open>X_train\<close>, \<open>y_train\<close>, \<open>X_test\<close>,
  \<open>y_test\<close> and \<open>accuracy_score\<close> when it is called; \<open>params\<close>, \<open>model\<close>,
  \<open>predictions\<close> and \<open>accuracy\<close> are its locals. \<open>model.fit\<close> updates the model in
  place and returns it.
\<close>

definition xgb_evaluate :: "lib \<Rightarrow> val \<Rightarrow> val \<Rightarrow> val \<Rightarrow> val \<Rightarrow> val m" where
  "xgb_evaluate L max_depth gamma colsample_bytree learning_rate =
     bnd (lift (py_int L max_depth)) (\<lambda>d.
     bnd (ret
            [(''max_depth'', d),
             (''gamma'', gamma),
             (''colsample_bytree'', colsample_bytree),
             (''learning_rate'', learning_rate),
             (''objective'', VStr ''multi:softprob''),
             (''num_class'', VInt 3),
             (''eval_metric'', VStr ''mlogloss''),
             (''silent'', VInt 1)]) (\<lambda>params.
     bnd (name ''XGBClassifier'') (\<lambda>cls.
     bnd (callv L cls [] params) (\<lambda>model.
     bnd (name ''X_train'') (\<lambda>xtr.
     bnd (name ''y_train'') (\<lambda>ytr.
     bnd (callm L model ''fit'' [xtr, ytr] []) (\<lambda>model.
     bnd (name ''X_test'') (\<lambda>xte.
     bnd (callm L model ''predict'' [xte] []) (\<lambda>predictions.
     bnd (name ''accuracy_score'') (\<lambda>acc.
     bnd (name ''y_test'') (\<lambda>yte.
     callv L acc [yte, predictions] [])))))))))))"

text \<open>
  The optimiser calls the objective with keyword arguments, one for each key of the
  bounds, in the namespace as it is at the time of \<open>maximize\<close>.
\<close>

definition objective :: "lib \<Rightarrow> state \<Rightarrow> kwargs \<Rightarrow> error + val" where
  "objective L s kw =
     (case (map_of kw ''max_depth'', map_of kw ''gamma'',
            map_of kw ''colsample_bytree'', map_of kw ''learning_rate'') of
        (Some md, Some g, Some c, Some lr) \<Rightarrow>
          (if length kw = 4 then map_sum id fst (xgb_evaluate L md g c lr s)
           else Inl (TypeError ''xgb_evaluate''))
      | _ \<Rightarrow> Inl (TypeError ''xgb_evaluate''))"

definition maximizem :: "lib \<Rightarrow> nat \<Rightarrow> val \<Rightarrow> kwargs \<Rightarrow> val m" where
  "maximizem L rng bo kw s =
     (case method_name bo ''maximize'' of
        Inl e \<Rightarrow> Inl e
      | Inr q \<Rightarrow>
          (case maximize L rng (objective L s) bo kw of
             Inl e \<Rightarrow> Inl e
           | Inr bo' \<Rightarrow> Inr (bo', s\<lparr>calls := calls s @ [q]\<rparr>)))"

definition pbounds :: val where
  "pbounds = VDict
     [(''max_depth'', VList [VInt 3, VInt 10]),
      (''gamma'', VList [VInt 0, VInt 1]),
      (''colsample_bytree'', VList [VFloat 0.3, VFloat 0.9]),
      (''learning_rate'', VList [VFloat 0.01, VFloat 0.3])]"

definition cell_12 :: "lib \<Rightarrow> nat \<Rightarrow> unit m" where
  "cell_12 L rng =
     seq (import_as ''numpy'' ''np'')
    (seq (import_as ''pandas'' ''pd'')
    (seq (from_import ''sklearn.datasets'' ''load_wine'')
    (seq (from_import ''sklearn.model_selection'' ''train_test_split'')
    (seq (from_import ''xgboost'' ''XGBClassifier'')
    (seq (from_import ''bayes_opt'' ''BayesianOptimization'')
    (seq (from_import ''sklearn.metrics'' ''accuracy_score'')
    (bnd (name ''load_wine'') (\<lambda>f.
     bnd (callv L f [] [(''as_frame'', VBool True)]) (\<lambda>wine.
     seq (assign ''wine'' wine)
    (bnd (name ''wine'') (\<lambda>w1.
     bnd (lift (getattr w1 ''data'')) (\<lambda>X.
     seq (assign ''X'' X)
    (bnd (name ''wine'') (\<lambda>w2.
     bnd (lift (getattr w2 ''target'')) (\<lambda>y.
     seq (assign ''y'' y)
    (bnd (name ''train_test_split'') (\<lambda>tts.
     bnd (name ''X'') (\<lambda>X.
     bnd (name ''y'') (\<lambda>y.
     bnd (callv L tts [X, y] [(''test_size'', VFloat 0.2), (''random_state'', VInt 42)]) (\<lambda>parts.
     seq (unpack4 ''X_train'' ''X_test'' ''y_train'' ''y_test'' parts)
    (seq (assign ''xgb_evaluate'' (VFunc ''__main__.xgb_evaluate''))
    (bnd (name ''BayesianOptimization'') (\<lambda>bo.
     bnd (name ''xgb_evaluate'') (\<lambda>xe.
     bnd (callv L bo [xe, pbounds] []) (\<lambda>opt.
     seq (assign ''xgb_bo'' opt)
    (bnd (name ''xgb_bo'') (\<lambda>opt.
     bnd (maximizem L rng opt [(''init_points'', VInt 5), (''n_iter'', VInt 10)]) (\<lambda>opt'.
     seq (assign ''xgb_bo'' opt')
    (bnd (name ''xgb_bo'') (\<lambda>opt.
     bnd (lift (getattr opt ''max'')) (\<lambda>mx.
     bnd (lift (getitem mx ''params'')) (\<lambda>ps.
     seq (assign ''params'' ps)
    (bnd (name ''params'') (\<lambda>ps1.
     bnd (lift (getitem ps1 ''max_depth'')) (\<lambda>md.
     bnd (lift (py_int L md)) (\<lambda>d.
     bnd (name ''params'') (\<lambda>ps2.
     bnd (lift (setitem ps2 ''max_depth'' d)) (\<lambda>ps3.
     seq (assign ''params'' ps3)
    (bnd (name ''params'') (\<lambda>ps4.
     print [VStr ''Optimized parameters:'', ps4]))))))))))))))))))))))))))))))))))))))))"

section \<open>Running the notebook\<close>

text \<open>
  The cells run in order; an exception raised in a cell ends the run. \<open>rng\<close> is the
  state of the global random generator of the run.
\<close>

fun run_cells :: "unit m list \<Rightarrow> unit m" where
  "run_cells [] = ret ()"
| "run_cells (c # cs) = seq c (run_cells cs)"

definition cells :: "lib \<Rightarrow> nat \<Rightarrow> unit m list" where
  "cells L rng =
     [cell_2 L, cell_3 L, cell_5 L, cell_7 L rng, cell_8, cell_10 L, cell_11, cell_12 L rng]"

definition run_notebook :: "lib \<Rightarrow> nat \<Rightarrow> unit m" where
  "run_notebook L rng = run_cells (cells L rng)"

text \<open>A fresh interpreter: nothing bound, nothing printed, no filter, no call made.\<close>

definition fresh :: "string list \<Rightarrow> state" where
  "fresh pkgs = \<lparr>ns = Map.empty, site = pkgs, filters = [], stdout = [], calls = []\<rparr>"

section \<open>A small library to run the notebook on\<close>

text \<open>
  A stand-in for the libraries, for evaluating the model at a concrete input: the dataset
  has two rows, the split gives the whole table for both parts, a fit returns a fitted
  object with fixed results, and the optimiser evaluates its objective at one point.
\<close>

definition stub_point :: kwargs where
  "stub_point =
     [(''colsample_bytree'', VFloat 0.6242), (''gamma'', VFloat 0.5326),
      (''learning_rate'', VFloat 0.29), (''max_depth'', VFloat 4.637)]"

definition stub_best :: val where
  "stub_best = VDict
     [(''colsample_bytree'', VFloat 0.5), (''learning_rate'', VFloat 0.5), (''max_depth'', VInt 3),
      (''min_child_weight'', VInt 3), (''n_estimators'', VInt 100),
      (''objective'', VStr ''multi:softmax''), (''subsample'', VFloat 0.7)]"

definition stub_call :: "string \<Rightarrow> val list \<Rightarrow> kwargs \<Rightarrow> error + val" where
  "stub_call q args kw =
     (if q = ''sklearn.datasets.load_wine'' then
        Inr (VObj ''Bunch''
          [(''data'', VList [VFloat 14.23, VFloat 13.2]),
           (''feature_names'', VList [VStr ''alcohol'']),
           (''target'', VList [VInt 0, VInt 1])])
      else if q = ''pandas.DataFrame'' then
        (case args of [d] \<Rightarrow> Inr d | _ \<Rightarrow> Inl (TypeError q))
      else if q = ''sklearn.model_selection.train_test_split'' then
        (case args of [X, y] \<Rightarrow> Inr (VList [X, X, y, y]) | _ \<Rightarrow> Inl (TypeError q))
      else if q = ''xgboost.XGBClassifier'' then Inr (VObj ''XGBClassifier'' kw)
      else if q = ''XGBClassifier.fit'' then
        (case args of [m, X, y] \<Rightarrow> Inr m | _ \<Rightarrow> Inl (TypeError q))
      else if q = ''XGBClassifier.predict'' then
        (case args of [m, X] \<Rightarrow> Inr (VList [VInt 0, VInt 1]) | _ \<Rightarrow> Inl (TypeError q))
      else if q = ''sklearn.metrics.accuracy_score'' then Inr (VFloat 1)
      else if q = ''numpy.linspace'' then
        (case args of [a, b, n] \<Rightarrow> Inr (VList [a, b]) | _ \<Rightarrow> Inl (TypeError q))
      else if q = ''sklearn.model_selection.GridSearchCV'' then Inr (VObj ''GridSearchCV'' [])
      else if q = ''GridSearchCV.fit'' then
        Inr (VObj ''GridSearchCV''
          [(''best_params_'', stub_best), (''best_score_'', VFloat 0.97),
           (''best_estimator_'', VObj ''XGBClassifier'' [])])
      else if q = ''sklearn.model_selection.RandomizedSearchCV'' then
        Inr (VObj ''RandomizedSearchCV'' [])
      else if q = ''bayes_opt.BayesianOptimization'' then
        Inr (VObj ''BayesianOptimization'' [])
      else Inl (LibraryError q))"

definition stub_scall :: "nat \<Rightarrow> string \<Rightarrow> val list \<Rightarrow> kwargs \<Rightarrow> error + val" where
  "stub_scall rng q args kw =
     (if q = ''RandomizedSearchCV.fit'' then
        Inr (VObj ''RandomizedSearchCV''
          [(''best_params_'', stub_best), (''best_score_'', VFloat (1 / (1 + real rng)))])
      else Inl (LibraryError q))"

definition stub_maximize :: "nat \<Rightarrow> (kwargs \<Rightarrow> error + val) \<Rightarrow> val \<Rightarrow> kwargs \<Rightarrow> error + val" where
  "stub_maximize rng f bo kw =
     (case f stub_point of
        Inl e \<Rightarrow> Inl e
      | Inr t \<Rightarrow>
          Inr (VObj ''BayesianOptimization''
            [(''max'', VDict [(''target'', t), (''params'', VDict stub_point)])]))"

definition stub_pip :: "string \<Rightarrow> string list \<Rightarrow> string list" where
  "stub_pip p ms =
     (if p = ''bayesian-optimization'' then ''bayes_opt'' # ''colorama'' # ms else ms)"

definition stub_lib :: lib where
  "stub_lib = \<lparr>call = stub_call, scall = stub_scall, maximize = stub_maximize,
                pip_install = stub_pip\<rparr>"

definition base_site :: "string list" where
  "base_site = [''numpy'', ''pandas'', ''sklearn'', ''xgboost'']"

text \<open>
  The states the stand-in library leaves: after cell 2 in a fresh interpreter, and after
  cell 12 in a fresh interpreter that has \<open>bayes_opt\<close> installed.
\<close>

definition after_cell_2 :: state where
  "after_cell_2 = snd (projr (cell_2 stub_lib (fresh base_site)))"

definition after_cell_12 :: state where
  "after_cell_12 = snd (projr (cell_12 stub_lib 0 (fresh (''bayes_opt'' # base_site))))"



section \<open>The properties, in the words of the specification\<close>

text \<open>
  The split both sections ask for: \<open>train_test_split\<close> with \<open>test_size=0.2\<close> and
  \<open>random_state=42\<close>; and the four parts a state holds.
\<close>

definition split_call :: "lib \<Rightarrow> val \<Rightarrow> val \<Rightarrow> error + val" where
  "split_call L X y =
     call L ''sklearn.model_selection.train_test_split'' [X, y]
       [(''test_size'', VFloat 0.2), (''random_state'', VInt 42)]"

definition split_of :: "state \<Rightarrow> val option list" where
  "split_of s = map (ns s) [''X_train'', ''X_test'', ''y_train'', ''y_test'']"

text \<open>
  Scoring on the held-out test set: fit an \<open>XGBClassifier\<close> with the given parameters on
  the training part, predict the test part, and return \<open>accuracy_score\<close> of the test
  labels and the predictions.
\<close>

definition sbind :: "error + 'a \<Rightarrow> ('a \<Rightarrow> error + 'b) \<Rightarrow> error + 'b" where
  "sbind r f = (case r of Inl e \<Rightarrow> Inl e | Inr a \<Rightarrow> f a)"

definition call_method :: "lib \<Rightarrow> val \<Rightarrow> string \<Rightarrow> val list \<Rightarrow> error + val" where
  "call_method L obj f args = sbind (method_name obj f) (\<lambda>q. call L q (obj # args) [])"

definition holdout_accuracy :: "lib \<Rightarrow> kwargs \<Rightarrow> val \<Rightarrow> val \<Rightarrow> val \<Rightarrow> val \<Rightarrow> error + val" where
  "holdout_accuracy L params xtr ytr xte yte =
     sbind (call L ''xgboost.XGBClassifier'' [] params) (\<lambda>model.
     sbind (call_method L model ''fit'' [xtr, ytr]) (\<lambda>fitted.
     sbind (call_method L fitted ''predict'' [xte]) (\<lambda>predictions.
     call L ''sklearn.metrics.accuracy_score'' [yte, predictions] [])))"

definition xgb_params :: "val \<Rightarrow> val \<Rightarrow> val \<Rightarrow> val \<Rightarrow> kwargs" where
  "xgb_params d g c lr =
     [(''max_depth'', d), (''gamma'', g), (''colsample_bytree'', c), (''learning_rate'', lr),
      (''objective'', VStr ''multi:softprob''), (''num_class'', VInt 3),
      (''eval_metric'', VStr ''mlogloss''), (''silent'', VInt 1)]"

definition holdout_objective ::
  "lib \<Rightarrow> val \<Rightarrow> val \<Rightarrow> val \<Rightarrow> val \<Rightarrow> kwargs \<Rightarrow> error + val" where
  "holdout_objective L xtr ytr xte yte kw =
     (case (map_of kw ''max_depth'', map_of kw ''gamma'',
            map_of kw ''colsample_bytree'', map_of kw ''learning_rate'') of
        (Some md, Some g, Some c, Some lr) \<Rightarrow>
          (if length kw = 4
           then sbind (py_int L md) (\<lambda>d. holdout_accuracy L (xgb_params d g c lr) xtr ytr xte yte)
           else Inl (TypeError ''xgb_evaluate''))
      | _ \<Rightarrow> Inl (TypeError ''xgb_evaluate''))"

text \<open>
  The number of combinations a parameter grid declares: the product of the numbers of
  candidate values of its hyperparameters.
\<close>

definition candidates :: "val \<Rightarrow> nat" where
  "candidates g =
     (case g of
        VDict kvs \<Rightarrow> prod_list (map (\<lambda>kv. case snd kv of VList xs \<Rightarrow> length xs | _ \<Rightarrow> 0) kvs)
      | _ \<Rightarrow> 0)"



section \<open>Symbolic execution of the cells\<close>

text \<open>
  What a cell that returns has done: the library calls it made, with their arguments,
  and the state it leaves. The lemmas below unfold the statements of a cell once.
\<close>

lemmas m_defs = ret_def raise_def bnd_def seq_def lift_def name_def assign_def print_def
  display_def import_as_def from_import_def called_def callv_def callm_def scallm_def
  method_name_def top_level_def

lemma getattr_module: "getattr (VModule m) a = Inr (VFunc (m @ ''.'' @ a))"
  by (simp add: getattr_def)

lemma unpack4_Inr:
  "unpack4 a b c d v s = Inr (u, t) \<Longrightarrow>
     \<exists>va vb vc vd. v = VList [va, vb, vc, vd] \<and>
       t = s\<lparr>ns := (ns s)(a \<mapsto> va, b \<mapsto> vb, c \<mapsto> vc, d \<mapsto> vd)\<rparr>"
  unfolding unpack4_def m_defs
  by (auto split: val.splits list.splits)

lemma cell_2_result:
  assumes "cell_2 L s = Inr (u, t)"
  shows "\<exists>w dat cols X y xtr xte ytr yte.
     call L ''sklearn.datasets.load_wine'' [] [] = Inr w \<and>
     getattr w ''data'' = Inr dat \<and> getattr w ''feature_names'' = Inr cols \<and>
     call L ''pandas.DataFrame'' [dat] [(''columns'', cols)] = Inr X \<and>
     getattr w ''target'' = Inr y \<and>
     split_call L X y = Inr (VList [xtr, xte, ytr, yte]) \<and>
     t = s\<lparr>ns := (ns s)(''np'' \<mapsto> VModule ''numpy'', ''pd'' \<mapsto> VModule ''pandas'',
            ''load_wine'' \<mapsto> VFunc ''sklearn.datasets.load_wine'',
            ''train_test_split'' \<mapsto> VFunc ''sklearn.model_selection.train_test_split'',
            ''xgb'' \<mapsto> VModule ''xgboost'', ''wine'' \<mapsto> w, ''X'' \<mapsto> X, ''y'' \<mapsto> y,
            ''X_train'' \<mapsto> xtr, ''X_test'' \<mapsto> xte, ''y_train'' \<mapsto> ytr, ''y_test'' \<mapsto> yte),
          calls := calls s @ [''sklearn.datasets.load_wine'', ''pandas.DataFrame'',
            ''sklearn.model_selection.train_test_split'']\<rparr>"
  using assms unfolding cell_2_def m_defs split_call_def
  by (auto split: sum.splits option.splits if_splits dest!: unpack4_Inr simp: getattr_def)

lemma cell_3_result:
  assumes "cell_3 L s = Inr (u, t)" and "ns s ''xgb'' = Some (VModule ''xgboost'')"
  shows "\<exists>clf c fs fitted bp bs xtr ytr.
     call L ''xgboost.XGBClassifier'' [] [] = Inr clf \<and>
     call L ''sklearn.model_selection.GridSearchCV'' [clf, param_grid]
       [(''scoring'', VStr ''accuracy''), (''cv'', VInt 3), (''verbose'', VInt 1)] = Inr (VObj c fs) \<and>
     ns s ''X_train'' = Some xtr \<and> ns s ''y_train'' = Some ytr \<and>
     call L (c @ ''.fit'') [VObj c fs, xtr, ytr] [] = Inr fitted \<and>
     getattr fitted ''best_params_'' = Inr bp \<and> getattr fitted ''best_score_'' = Inr bs \<and>
     t = s\<lparr>ns := (ns s)(''GridSearchCV'' \<mapsto> VFunc ''sklearn.model_selection.GridSearchCV'',
            ''param_grid'' \<mapsto> param_grid, ''clf'' \<mapsto> clf, ''grid_search'' \<mapsto> fitted),
          stdout := stdout s @ [Print [VStr ''Best parameters found: '', bp],
                                Print [VStr ''Best score'', bs]],
          calls := calls s @ [''xgboost.XGBClassifier'', ''sklearn.model_selection.GridSearchCV'',
            c @ ''.fit'']\<rparr>"
  using assms unfolding cell_3_def m_defs
  by (auto split: sum.splits option.splits if_splits val.splits simp: getattr_module)

lemma cell_5_result:
  assumes "cell_5 L s = Inr (u, t)" and "ns s ''xgb'' = Some (VModule ''xgboost'')"
  shows "\<exists>gs be kw m.
     ns s ''grid_search'' = Some gs \<and> getattr gs ''best_estimator_'' = Inr be \<and>
     getattr gs ''best_params_'' = Inr (VDict kw) \<and>
     call L ''xgboost.XGBClassifier'' [] kw = Inr m \<and>
     t = s\<lparr>ns := (ns s)(''best_model'' \<mapsto> be, ''new_model'' \<mapsto> m),
          calls := calls s @ [''xgboost.XGBClassifier'']\<rparr>"
  using assms unfolding cell_5_def m_defs splat_def
  by (auto split: sum.splits option.splits if_splits val.splits simp: getattr_module)

lemma cell_8_result:
  assumes "cell_8 s = Inr (u, t)"
  shows "\<exists>rs bs. ns s ''rand_search'' = Some rs \<and> getattr rs ''best_score_'' = Inr bs \<and>
     t = s\<lparr>stdout := stdout s @ [Display bs]\<rparr>"
  using assms unfolding cell_8_def m_defs
  by (auto split: sum.splits option.splits)

lemma cell_11_result:
  assumes "cell_11 s = Inr (u, t)"
  shows "t = s\<lparr>ns := (ns s)(''warnings'' \<mapsto> VModule ''warnings''),
               filters := ''ignore'' # filters s\<rparr>"
  using assms unfolding cell_11_def m_defs filterwarnings_def
  by (auto split: sum.splits option.splits)

lemma cell_7_result:
  assumes "cell_7 L rng s = Inr (u, t)" and "ns s ''np'' = Some (VModule ''numpy'')"
  shows "\<exists>lr ss clf c fs fitted bp bs xtr ytr.
     call L ''numpy.linspace'' [VFloat 0.01, VInt 1, VInt 10] [] = Inr lr \<and>
     call L ''numpy.linspace'' [VFloat 0.5, VInt 1, VInt 6] [] = Inr ss \<and>
     ns s ''clf'' = Some clf \<and>
     call L ''sklearn.model_selection.RandomizedSearchCV'' [clf]
       [(''param_distributions'', param_dist lr ss ss), (''scoring'', VStr ''accuracy''),
        (''cv'', VInt 3), (''verbose'', VInt 1), (''n_iter'', VInt 50)] = Inr (VObj c fs) \<and>
     ns s ''X_train'' = Some xtr \<and> ns s ''y_train'' = Some ytr \<and>
     scall L rng (c @ ''.fit'') [VObj c fs, xtr, ytr] [] = Inr fitted \<and>
     getattr fitted ''best_params_'' = Inr bp \<and> getattr fitted ''best_score_'' = Inr bs \<and>
     t = s\<lparr>ns := (ns s)(''RandomizedSearchCV'' \<mapsto> VFunc ''sklearn.model_selection.RandomizedSearchCV'',
            ''param_dist'' \<mapsto> param_dist lr ss ss, ''rand_search'' \<mapsto> fitted),
          stdout := stdout s @ [Print [VStr ''Best parameters found: '', bp],
                                Print [VStr ''Best score'', bs]],
          calls := calls s @ [''numpy.linspace'', ''numpy.linspace'', ''numpy.linspace'',
            ''sklearn.model_selection.RandomizedSearchCV'', c @ ''.fit'']\<rparr>"
  using assms unfolding cell_7_def m_defs
  by (auto split: sum.splits option.splits if_splits val.splits simp: getattr_module)

lemma xgb_evaluate_holdout:
  assumes "ns s ''XGBClassifier'' = Some (VFunc ''xgboost.XGBClassifier'')"
    and "ns s ''accuracy_score'' = Some (VFunc ''sklearn.metrics.accuracy_score'')"
    and "ns s ''X_train'' = Some xtr" and "ns s ''y_train'' = Some ytr"
    and "ns s ''X_test'' = Some xte" and "ns s ''y_test'' = Some yte"
  shows "map_sum id fst (xgb_evaluate L md g c lr s) =
     sbind (py_int L md) (\<lambda>d. holdout_accuracy L (xgb_params d g c lr) xtr ytr xte yte)"
  using assms unfolding xgb_evaluate_def m_defs sbind_def holdout_accuracy_def call_method_def xgb_params_def
  by (auto split: sum.splits option.splits val.splits)

lemma objective_holdout:
  assumes "ns s ''XGBClassifier'' = Some (VFunc ''xgboost.XGBClassifier'')"
    and "ns s ''accuracy_score'' = Some (VFunc ''sklearn.metrics.accuracy_score'')"
    and "ns s ''X_train'' = Some xtr" and "ns s ''y_train'' = Some ytr"
    and "ns s ''X_test'' = Some xte" and "ns s ''y_test'' = Some yte"
  shows "objective L s = holdout_objective L xtr ytr xte yte"
proof
  fix kw
  show "objective L s kw = holdout_objective L xtr ytr xte yte kw"
    unfolding objective_def holdout_objective_def
    by (simp add: xgb_evaluate_holdout [OF assms] split: option.splits)
qed

lemma objective_the:
  assumes "ns s ''XGBClassifier'' = Some (VFunc ''xgboost.XGBClassifier'')"
    and "ns s ''accuracy_score'' = Some (VFunc ''sklearn.metrics.accuracy_score'')"
    and "ns s ''X_train'' \<noteq> None" and "ns s ''y_train'' \<noteq> None"
    and "ns s ''X_test'' \<noteq> None" and "ns s ''y_test'' \<noteq> None"
  shows "objective L s = holdout_objective L (the (ns s ''X_train'')) (the (ns s ''y_train''))
           (the (ns s ''X_test'')) (the (ns s ''y_test''))"
  using assms by (intro objective_holdout) auto

lemma cell_12_result:
  assumes "cell_12 L rng s = Inr (u, t)"
  shows "\<exists>w X y xtr xte ytr yte c fs opt mx ps md d ps'.
     ''numpy'' \<in> set (site s) \<and> ''pandas'' \<in> set (site s) \<and>
     ''sklearn'' \<in> set (site s) \<and> ''xgboost'' \<in> set (site s) \<and>
     ''bayes_opt'' \<in> set (site s) \<and>
     call L ''sklearn.datasets.load_wine'' [] [(''as_frame'', VBool True)] = Inr w \<and>
     getattr w ''data'' = Inr X \<and> getattr w ''target'' = Inr y \<and>
     split_call L X y = Inr (VList [xtr, xte, ytr, yte]) \<and>
     call L ''bayes_opt.BayesianOptimization'' [VFunc ''__main__.xgb_evaluate'', pbounds] []
       = Inr (VObj c fs) \<and>
     maximize L rng (holdout_objective L xtr ytr xte yte) (VObj c fs)
       [(''init_points'', VInt 5), (''n_iter'', VInt 10)] = Inr opt \<and>
     getattr opt ''max'' = Inr mx \<and> getitem mx ''params'' = Inr ps \<and>
     getitem ps ''max_depth'' = Inr md \<and> py_int L md = Inr d \<and>
     setitem ps ''max_depth'' d = Inr ps' \<and>
     t = s\<lparr>ns := (ns s)(''np'' \<mapsto> VModule ''numpy'', ''pd'' \<mapsto> VModule ''pandas'',
            ''load_wine'' \<mapsto> VFunc ''sklearn.datasets.load_wine'',
            ''train_test_split'' \<mapsto> VFunc ''sklearn.model_selection.train_test_split'',
            ''XGBClassifier'' \<mapsto> VFunc ''xgboost.XGBClassifier'',
            ''BayesianOptimization'' \<mapsto> VFunc ''bayes_opt.BayesianOptimization'',
            ''accuracy_score'' \<mapsto> VFunc ''sklearn.metrics.accuracy_score'',
            ''wine'' \<mapsto> w, ''X'' \<mapsto> X, ''y'' \<mapsto> y,
            ''X_train'' \<mapsto> xtr, ''X_test'' \<mapsto> xte, ''y_train'' \<mapsto> ytr, ''y_test'' \<mapsto> yte,
            ''xgb_evaluate'' \<mapsto> VFunc ''__main__.xgb_evaluate'',
            ''xgb_bo'' \<mapsto> opt, ''params'' \<mapsto> ps'),
          stdout := stdout s @ [Print [VStr ''Optimized parameters:'', ps']],
          calls := calls s @ [''sklearn.datasets.load_wine'',
            ''sklearn.model_selection.train_test_split'', ''bayes_opt.BayesianOptimization'',
            c @ ''.maximize'']\<rparr>"
  using assms unfolding cell_12_def m_defs split_call_def maximizem_def
  by (auto split: sum.splits option.splits if_splits val.splits dest!: unpack4_Inr
       simp: objective_the)

lemma cell_10_result:
  assumes "cell_10 L s = Inr (u, t)"
  shows "t = s\<lparr>site := pip_install L ''bayesian-optimization'' (site s)\<rparr>"
  using assms unfolding cell_10_def by auto

subsection \<open>The whole notebook\<close>

text \<open>
  A run that returns went through every cell. The projections of the state are followed
  cell by cell, so that no term holds a state more than once.
\<close>

lemma run_notebook_steps:
  assumes "run_notebook L rng s = Inr (u, t)"
  shows "\<exists>s2 s3 s5 s7 s8 s10 s11.
     cell_2 L s = Inr ((), s2) \<and> cell_3 L s2 = Inr ((), s3) \<and> cell_5 L s3 = Inr ((), s5) \<and>
     cell_7 L rng s5 = Inr ((), s7) \<and> cell_8 s7 = Inr ((), s8) \<and>
     cell_10 L s8 = Inr ((), s10) \<and> cell_11 s10 = Inr ((), s11) \<and>
     cell_12 L rng s11 = Inr ((), t)"
  using assms unfolding run_notebook_def cells_def
  by (auto simp: seq_def bnd_def ret_def split: sum.splits)

lemma run_notebook_result:
  assumes "run_notebook L rng s = Inr (u, t)"
  shows "\<exists>c1 c2 c3 lr ss ps bp1 bs1 bp2 bs2.
     site t = pip_install L ''bayesian-optimization'' (site s) \<and>
     filters t = ''ignore'' # filters s \<and>
     calls t = calls s @
       [''sklearn.datasets.load_wine'', ''pandas.DataFrame'',
        ''sklearn.model_selection.train_test_split'',
        ''xgboost.XGBClassifier'', ''sklearn.model_selection.GridSearchCV'', c1 @ ''.fit'',
        ''xgboost.XGBClassifier'',
        ''numpy.linspace'', ''numpy.linspace'', ''numpy.linspace'',
        ''sklearn.model_selection.RandomizedSearchCV'', c2 @ ''.fit'',
        ''sklearn.datasets.load_wine'', ''sklearn.model_selection.train_test_split'',
        ''bayes_opt.BayesianOptimization'', c3 @ ''.maximize''] \<and>
     stdout t = stdout s @
       [Print [VStr ''Best parameters found: '', bp1], Print [VStr ''Best score'', bs1],
        Print [VStr ''Best parameters found: '', bp2], Print [VStr ''Best score'', bs2],
        Display bs2, Print [VStr ''Optimized parameters:'', ps]] \<and>
     ns t ''param_grid'' = Some param_grid \<and>
     call L ''numpy.linspace'' [VFloat 0.01, VInt 1, VInt 10] [] = Inr lr \<and>
     call L ''numpy.linspace'' [VFloat 0.5, VInt 1, VInt 6] [] = Inr ss \<and>
     ns t ''param_dist'' = Some (param_dist lr ss ss) \<and>
     ns t ''params'' = Some ps"
proof -
  from run_notebook_steps [OF assms] obtain s2 s3 s5 s7 s8 s10 s11 where
    st: "cell_2 L s = Inr ((), s2)" "cell_3 L s2 = Inr ((), s3)" "cell_5 L s3 = Inr ((), s5)"
        "cell_7 L rng s5 = Inr ((), s7)" "cell_8 s7 = Inr ((), s8)"
        "cell_10 L s8 = Inr ((), s10)" "cell_11 s10 = Inr ((), s11)"
        "cell_12 L rng s11 = Inr ((), t)"
    by blast
  from cell_2_result [OF st(1)] obtain w X y xtr xte ytr yte where
    s2: "s2 = s\<lparr>ns := (ns s)(''np'' \<mapsto> VModule ''numpy'', ''pd'' \<mapsto> VModule ''pandas'',
            ''load_wine'' \<mapsto> VFunc ''sklearn.datasets.load_wine'',
            ''train_test_split'' \<mapsto> VFunc ''sklearn.model_selection.train_test_split'',
            ''xgb'' \<mapsto> VModule ''xgboost'', ''wine'' \<mapsto> w, ''X'' \<mapsto> X, ''y'' \<mapsto> y,
            ''X_train'' \<mapsto> xtr, ''X_test'' \<mapsto> xte, ''y_train'' \<mapsto> ytr, ''y_test'' \<mapsto> yte),
          calls := calls s @ [''sklearn.datasets.load_wine'', ''pandas.DataFrame'',
            ''sklearn.model_selection.train_test_split'']\<rparr>"
    by blast
  have p2: "site s2 = site s" "filters s2 = filters s" "stdout s2 = stdout s"
    "calls s2 = calls s @ [''sklearn.datasets.load_wine'', ''pandas.DataFrame'',
       ''sklearn.model_selection.train_test_split'']"
    "ns s2 ''xgb'' = Some (VModule ''xgboost'')" "ns s2 ''np'' = Some (VModule ''numpy'')"
    by (simp_all add: s2)
  note p2(5)
  from cell_3_result [OF st(2) this] obtain clf c1 fitted bp1 bs1 where
    s3: "s3 = s2\<lparr>ns := (ns s2)(''GridSearchCV'' \<mapsto> VFunc ''sklearn.model_selection.GridSearchCV'',
            ''param_grid'' \<mapsto> param_grid, ''clf'' \<mapsto> clf, ''grid_search'' \<mapsto> fitted),
          stdout := stdout s2 @ [Print [VStr ''Best parameters found: '', bp1],
                                Print [VStr ''Best score'', bs1]],
          calls := calls s2 @ [''xgboost.XGBClassifier'', ''sklearn.model_selection.GridSearchCV'',
            c1 @ ''.fit'']\<rparr>"
    by blast
  have p3: "site s3 = site s" "filters s3 = filters s"
    "stdout s3 = stdout s @ [Print [VStr ''Best parameters found: '', bp1],
                             Print [VStr ''Best score'', bs1]]"
    "calls s3 = calls s @ [''sklearn.datasets.load_wine'', ''pandas.DataFrame'',
       ''sklearn.model_selection.train_test_split'',
       ''xgboost.XGBClassifier'', ''sklearn.model_selection.GridSearchCV'', c1 @ ''.fit'']"
    "ns s3 ''xgb'' = Some (VModule ''xgboost'')" "ns s3 ''np'' = Some (VModule ''numpy'')"
    "ns s3 ''param_grid'' = Some param_grid"
    by (simp_all add: s3 p2)
  note p3(5)
  from cell_5_result [OF st(3) this] obtain be m where
    s5: "s5 = s3\<lparr>ns := (ns s3)(''best_model'' \<mapsto> be, ''new_model'' \<mapsto> m),
          calls := calls s3 @ [''xgboost.XGBClassifier'']\<rparr>"
    by blast
  have p5: "site s5 = site s" "filters s5 = filters s"
    "stdout s5 = stdout s @ [Print [VStr ''Best parameters found: '', bp1],
                             Print [VStr ''Best score'', bs1]]"
    "calls s5 = calls s @ [''sklearn.datasets.load_wine'', ''pandas.DataFrame'',
       ''sklearn.model_selection.train_test_split'',
       ''xgboost.XGBClassifier'', ''sklearn.model_selection.GridSearchCV'', c1 @ ''.fit'',
       ''xgboost.XGBClassifier'']"
    "ns s5 ''np'' = Some (VModule ''numpy'')"
    "ns s5 ''param_grid'' = Some param_grid"
    by (simp_all add: s5 p3)
  note p5(5)
  from cell_7_result [OF st(4) this] obtain lr ss c2 fitted2 bp2 bs2 where
    ls: "call L ''numpy.linspace'' [VFloat 0.01, VInt 1, VInt 10] [] = Inr lr"
        "call L ''numpy.linspace'' [VFloat 0.5, VInt 1, VInt 6] [] = Inr ss"
        "getattr fitted2 ''best_score_'' = Inr bs2" and
    s7: "s7 = s5\<lparr>ns := (ns s5)(''RandomizedSearchCV'' \<mapsto> VFunc ''sklearn.model_selection.RandomizedSearchCV'',
            ''param_dist'' \<mapsto> param_dist lr ss ss, ''rand_search'' \<mapsto> fitted2),
          stdout := stdout s5 @ [Print [VStr ''Best parameters found: '', bp2],
                                Print [VStr ''Best score'', bs2]],
          calls := calls s5 @ [''numpy.linspace'', ''numpy.linspace'', ''numpy.linspace'',
            ''sklearn.model_selection.RandomizedSearchCV'', c2 @ ''.fit'']\<rparr>"
    by blast
  have p7: "site s7 = site s" "filters s7 = filters s"
    "stdout s7 = stdout s @ [Print [VStr ''Best parameters found: '', bp1],
                             Print [VStr ''Best score'', bs1],
                             Print [VStr ''Best parameters found: '', bp2],
                             Print [VStr ''Best score'', bs2]]"
    "calls s7 = calls s @ [''sklearn.datasets.load_wine'', ''pandas.DataFrame'',
       ''sklearn.model_selection.train_test_split'',
       ''xgboost.XGBClassifier'', ''sklearn.model_selection.GridSearchCV'', c1 @ ''.fit'',
       ''xgboost.XGBClassifier'',
       ''numpy.linspace'', ''numpy.linspace'', ''numpy.linspace'',
       ''sklearn.model_selection.RandomizedSearchCV'', c2 @ ''.fit'']"
    "ns s7 ''param_grid'' = Some param_grid"
    "ns s7 ''param_dist'' = Some (param_dist lr ss ss)"
    "ns s7 ''rand_search'' = Some fitted2"
    by (simp_all add: s7 p5)
  from cell_8_result [OF st(5)] obtain rs bs where
    "ns s7 ''rand_search'' = Some rs" "getattr rs ''best_score_'' = Inr bs"
    and s8: "s8 = s7\<lparr>stdout := stdout s7 @ [Display bs]\<rparr>"
    by blast
  with ls(3) p7(7) have bs: "bs = bs2" by simp
  have p8: "site s8 = site s" "filters s8 = filters s"
    "stdout s8 = stdout s7 @ [Display bs2]" "calls s8 = calls s7"
    "ns s8 ''param_grid'' = Some param_grid"
    "ns s8 ''param_dist'' = Some (param_dist lr ss ss)"
    by (simp_all add: s8 p7(1,2,5,6) bs)
  have p10: "site s10 = pip_install L ''bayesian-optimization'' (site s)"
    "filters s10 = filters s" "stdout s10 = stdout s8" "calls s10 = calls s8"
    "ns s10 ''param_grid'' = Some param_grid"
    "ns s10 ''param_dist'' = Some (param_dist lr ss ss)"
    by (simp_all add: cell_10_result [OF st(6)] p8)
  have p11: "site s11 = site s10" "filters s11 = ''ignore'' # filters s"
    "stdout s11 = stdout s8" "calls s11 = calls s8"
    "ns s11 ''param_grid'' = Some param_grid"
    "ns s11 ''param_dist'' = Some (param_dist lr ss ss)"
    by (simp_all add: cell_11_result [OF st(7)] p10)
  from cell_12_result [OF st(8)] obtain w' X' y' xtr' xte' ytr' yte' c3 opt ps where
    t: "t = s11\<lparr>ns := (ns s11)(''np'' \<mapsto> VModule ''numpy'', ''pd'' \<mapsto> VModule ''pandas'',
            ''load_wine'' \<mapsto> VFunc ''sklearn.datasets.load_wine'',
            ''train_test_split'' \<mapsto> VFunc ''sklearn.model_selection.train_test_split'',
            ''XGBClassifier'' \<mapsto> VFunc ''xgboost.XGBClassifier'',
            ''BayesianOptimization'' \<mapsto> VFunc ''bayes_opt.BayesianOptimization'',
            ''accuracy_score'' \<mapsto> VFunc ''sklearn.metrics.accuracy_score'',
            ''wine'' \<mapsto> w', ''X'' \<mapsto> X', ''y'' \<mapsto> y',
            ''X_train'' \<mapsto> xtr', ''X_test'' \<mapsto> xte', ''y_train'' \<mapsto> ytr', ''y_test'' \<mapsto> yte',
            ''xgb_evaluate'' \<mapsto> VFunc ''__main__.xgb_evaluate'',
            ''xgb_bo'' \<mapsto> opt, ''params'' \<mapsto> ps),
          stdout := stdout s11 @ [Print [VStr ''Optimized parameters:'', ps]],
          calls := calls s11 @ [''sklearn.datasets.load_wine'',
            ''sklearn.model_selection.train_test_split'', ''bayes_opt.BayesianOptimization'',
            c3 @ ''.maximize'']\<rparr>"
    by blast
  have "site t = pip_install L ''bayesian-optimization'' (site s)"
    by (simp add: t p11 p10)
  moreover have "filters t = ''ignore'' # filters s"
    by (simp add: t p11)
  moreover have "calls t = calls s @
       [''sklearn.datasets.load_wine'', ''pandas.DataFrame'',
        ''sklearn.model_selection.train_test_split'',
        ''xgboost.XGBClassifier'', ''sklearn.model_selection.GridSearchCV'', c1 @ ''.fit'',
        ''xgboost.XGBClassifier'',
        ''numpy.linspace'', ''numpy.linspace'', ''numpy.linspace'',
        ''sklearn.model_selection.RandomizedSearchCV'', c2 @ ''.fit'',
        ''sklearn.datasets.load_wine'', ''sklearn.model_selection.train_test_split'',
        ''bayes_opt.BayesianOptimization'', c3 @ ''.maximize'']"
    by (simp add: t p11 p8 p7)
  moreover have "stdout t = stdout s @
       [Print [VStr ''Best parameters found: '', bp1], Print [VStr ''Best score'', bs1],
        Print [VStr ''Best parameters found: '', bp2], Print [VStr ''Best score'', bs2],
        Display bs2, Print [VStr ''Optimized parameters:'', ps]]"
    by (simp add: t p11 p8 p7)
  moreover have "ns t ''param_grid'' = Some param_grid"
    by (simp add: t p11)
  moreover have "ns t ''param_dist'' = Some (param_dist lr ss ss)"
    by (simp add: t p11)
  moreover have "ns t ''params'' = Some ps"
    by (simp add: t)
  ultimately show ?thesis using ls(1,2) by (intro exI conjI) assumption+
qed

subsection \<open>Builtins, and reading a result off a run\<close>


lemma setitem_Inr:
  "setitem ps k d = Inr ps' \<Longrightarrow> \<exists>kvs. ps = VDict kvs \<and> ps' = VDict (AList.update k d kvs)"
  by (auto simp: setitem_def split: val.splits)

lemma Inr_projr: "\<not> isl r \<Longrightarrow> r = Inr (fst (projr r), snd (projr r))"
  by (cases r) auto

subsection \<open>What cells 3, 5 and 7 leave alone\<close>




subsection \<open>Method names are not the name of the loader\<close>

lemma fit_not_load_wine: "c @ ''.fit'' \<noteq> ''sklearn.datasets.load_wine''"
proof
  assume "c @ ''.fit'' = ''sklearn.datasets.load_wine''"
  then have "last (c @ ''.fit'') = last ''sklearn.datasets.load_wine''" by (rule arg_cong)
  then show False by simp
qed

lemma maximize_not_load_wine: "c @ ''.maximize'' \<noteq> ''sklearn.datasets.load_wine''"
proof
  assume "c @ ''.maximize'' = ''sklearn.datasets.load_wine''"
  then have "take 2 (rev (c @ ''.maximize'')) = take 2 (rev ''sklearn.datasets.load_wine'')"
    by (rule arg_cong)
  then show False by simp
qed

lemma getitem_VDict: "getitem (VDict kvs) k = Inr v \<longleftrightarrow> map_of kvs k = Some v"
  by (simp add: getitem_def split: option.splits)

subsection \<open>The calls of the objective, and the states of the stand-in runs\<close>



lemma after_cell_12_eq:
  "cell_12 stub_lib 0 (fresh (''bayes_opt'' # base_site)) = Inr ((), after_cell_12)"
proof -
  have "\<not> isl (cell_12 stub_lib 0 (fresh (''bayes_opt'' # base_site)))" by code_simp
  from Inr_projr [OF this] show ?thesis by (simp add: after_cell_12_def)
qed

subsection \<open>The split\<close>





subsection \<open>Exceptions\<close>







subsection \<open>Cell 12 from any namespace; the other cells in a fresh one\<close>



text \<open>
  The grid of cell 3 declares 64 combinations; with the three folds of \<open>cv=3\<close> that
  is 192 fits. Evaluating them is the library's part.
\<close>

lemma param_grid_candidates:
  "candidates param_grid = 64 \<and> 3 * candidates param_grid = 192"
  by (simp add: candidates_def param_grid_def)

section \<open>The claims\<close>






text \<open>
  Claim C3, as amended. In a run of the notebook that returns, the wine dataset is
  loaded twice: \<open>load_wine\<close> is called in cell 2 and again in cell 12. The parameter
  grid and the parameter distributions are each built once and are still bound, as they
  were built, when the run ends. The best-parameters mapping of the Bayesian search is
  updated in place after it is created: \<open>params\<close> is the optimiser's
  \<open>max['params']\<close> with the entry \<open>max_depth\<close> replaced by its \<open>int()\<close>.
\<close>

theorem entities_lifecycle:
  "run_notebook L rng s = Inr (u, t) \<longrightarrow>
     count_list (drop (length (calls s)) (calls t)) ''sklearn.datasets.load_wine'' = 2 \<and>
     ns t ''param_grid'' = Some param_grid \<and>
     (\<exists>lr ss.
        call L ''numpy.linspace'' [VFloat 0.01, VInt 1, VInt 10] [] = Inr lr \<and>
        call L ''numpy.linspace'' [VFloat 0.5, VInt 1, VInt 6] [] = Inr ss \<and>
        ns t ''param_dist'' = Some (param_dist lr ss ss)) \<and>
     (\<exists>opt mx kvs md d.
        ns t ''xgb_bo'' = Some opt \<and> getattr opt ''max'' = Inr mx \<and>
        getitem mx ''params'' = Inr (VDict kvs) \<and> map_of kvs ''max_depth'' = Some md \<and>
        py_int L md = Inr d \<and>
        ns t ''params'' = Some (VDict (AList.update ''max_depth'' d kvs)))"
proof (intro impI conjI)
  assume h: "run_notebook L rng s = Inr (u, t)"
  from run_notebook_result [OF h] obtain c1 c2 c3 lr ss where
    c: "calls t = calls s @
       [''sklearn.datasets.load_wine'', ''pandas.DataFrame'',
        ''sklearn.model_selection.train_test_split'',
        ''xgboost.XGBClassifier'', ''sklearn.model_selection.GridSearchCV'', c1 @ ''.fit'',
        ''xgboost.XGBClassifier'',
        ''numpy.linspace'', ''numpy.linspace'', ''numpy.linspace'',
        ''sklearn.model_selection.RandomizedSearchCV'', c2 @ ''.fit'',
        ''sklearn.datasets.load_wine'', ''sklearn.model_selection.train_test_split'',
        ''bayes_opt.BayesianOptimization'', c3 @ ''.maximize'']"
    and g: "ns t ''param_grid'' = Some param_grid"
    and d: "call L ''numpy.linspace'' [VFloat 0.01, VInt 1, VInt 10] [] = Inr lr"
       "call L ''numpy.linspace'' [VFloat 0.5, VInt 1, VInt 6] [] = Inr ss"
       "ns t ''param_dist'' = Some (param_dist lr ss ss)"
    by blast
  show "count_list (drop (length (calls s)) (calls t)) ''sklearn.datasets.load_wine'' = 2"
    by (simp add: c fit_not_load_wine maximize_not_load_wine)
  show "ns t ''param_grid'' = Some param_grid" by (rule g)
  show "\<exists>lr ss.
        call L ''numpy.linspace'' [VFloat 0.01, VInt 1, VInt 10] [] = Inr lr \<and>
        call L ''numpy.linspace'' [VFloat 0.5, VInt 1, VInt 6] [] = Inr ss \<and>
        ns t ''param_dist'' = Some (param_dist lr ss ss)"
    using d by blast
  from run_notebook_steps [OF h] obtain s11 where "cell_12 L rng s11 = Inr ((), t)"
    by blast
  from cell_12_result [OF this] obtain opt mx ps md d ps' where
    r: "getattr opt ''max'' = Inr mx" "getitem mx ''params'' = Inr ps"
       "getitem ps ''max_depth'' = Inr md" "py_int L md = Inr d"
       "setitem ps ''max_depth'' d = Inr ps'"
       "ns t ''xgb_bo'' = Some opt" "ns t ''params'' = Some ps'"
    by (elim exE conjE) simp
  from setitem_Inr [OF r(5)] obtain kvs where
    k: "ps = VDict kvs" "ps' = VDict (AList.update ''max_depth'' d kvs)" by blast
  from r(3) k(1) have "map_of kvs ''max_depth'' = Some md" by (simp add: getitem_VDict)
  with r k show "\<exists>opt mx kvs md d.
        ns t ''xgb_bo'' = Some opt \<and> getattr opt ''max'' = Inr mx \<and>
        getitem mx ''params'' = Inr (VDict kvs) \<and> map_of kvs ''max_depth'' = Some md \<and>
        py_int L md = Inr d \<and>
        ns t ''params'' = Some (VDict (AList.update ''max_depth'' d kvs))"
    by blast
qed

text \<open>
  The claim as stated fails: the stand-in run calls \<open>load_wine\<close> twice.
\<close>

theorem entities_lifecycle_counterexample:
  "count_list (projr (map_sum id (calls \<circ> snd) (run_notebook stub_lib 0 (fresh base_site))))
     ''sklearn.datasets.load_wine'' = 2 \<and>
   map_sum id (calls \<circ> snd) (run_notebook stub_lib 0 (fresh base_site)) = Inr
      [''sklearn.datasets.load_wine'', ''pandas.DataFrame'',
       ''sklearn.model_selection.train_test_split'',
       ''xgboost.XGBClassifier'', ''sklearn.model_selection.GridSearchCV'',
       ''GridSearchCV.fit'', ''xgboost.XGBClassifier'', ''numpy.linspace'',
       ''numpy.linspace'', ''numpy.linspace'',
       ''sklearn.model_selection.RandomizedSearchCV'',
       ''RandomizedSearchCV.fit'', ''sklearn.datasets.load_wine'',
       ''sklearn.model_selection.train_test_split'',
       ''bayes_opt.BayesianOptimization'',
       ''BayesianOptimization.maximize'']"
  by code_simp

text \<open>
  The amended statement at the run on the stand-in library in a fresh interpreter.
\<close>

theorem entities_lifecycle_witness:
  "count_list (drop (length (calls (fresh base_site)))
       (calls (snd (projr (run_notebook stub_lib 0 (fresh base_site))))))
     ''sklearn.datasets.load_wine'' = 2 \<and>
   ns (snd (projr (run_notebook stub_lib 0 (fresh base_site)))) ''param_grid'' = Some param_grid"
proof -
  have "\<not> isl (run_notebook stub_lib 0 (fresh base_site))" by code_simp
  note rn = Inr_projr [OF this]
  from entities_lifecycle [where L = stub_lib and rng = 0
      and s = "fresh base_site" and u = "fst (projr (run_notebook stub_lib 0 (fresh base_site)))"
      and t = "snd (projr (run_notebook stub_lib 0 (fresh base_site)))"] rn
  show ?thesis by blast
qed



text \<open>
  Claim C8. The objective of the Bayesian optimisation scores each candidate on the
  held-out test set, not by cross-validation. In the namespace of cell 12,
  \<open>xgb_evaluate\<close> is \<open>holdout_accuracy\<close>: it fits an \<open>XGBClassifier\<close> on
  \<open>(X_train, y_train)\<close> and returns \<open>accuracy_score\<close> of \<open>y_test\<close> and the
  predictions on \<open>X_test\<close>. What cell 12 gives \<open>maximize\<close> to maximise is that
  objective, on the four parts of the cell's own split. The grid search of cell 3, by
  contrast, is the library's \<open>GridSearchCV\<close> with \<open>cv=3\<close>, fitted on the training
  part alone.
\<close>

theorem xgb_evaluate_scores_on_test_set:
  "(ns s ''XGBClassifier'' = Some (VFunc ''xgboost.XGBClassifier'') \<and>
    ns s ''accuracy_score'' = Some (VFunc ''sklearn.metrics.accuracy_score'') \<and>
    ns s ''X_train'' = Some xtr \<and> ns s ''y_train'' = Some ytr \<and>
    ns s ''X_test'' = Some xte \<and> ns s ''y_test'' = Some yte \<longrightarrow>
      map_sum id fst (xgb_evaluate L md g c lr s) =
        sbind (py_int L md) (\<lambda>d. holdout_accuracy L (xgb_params d g c lr) xtr ytr xte yte)) \<and>
   (cell_12 L rng s = Inr (u, t) \<longrightarrow>
      (\<exists>X y xtr xte ytr yte opt opt'.
         split_call L X y = Inr (VList [xtr, xte, ytr, yte]) \<and>
         split_of t = [Some xtr, Some xte, Some ytr, Some yte] \<and>
         maximize L rng (holdout_objective L xtr ytr xte yte) opt
           [(''init_points'', VInt 5), (''n_iter'', VInt 10)] = Inr opt' \<and>
         ns t ''xgb_bo'' = Some opt')) \<and>
   (cell_3 L s = Inr (u, t) \<and> ns s ''xgb'' = Some (VModule ''xgboost'') \<longrightarrow>
      (\<exists>clf gs tr ytr fitted.
         call L ''sklearn.model_selection.GridSearchCV'' [clf, param_grid]
           [(''scoring'', VStr ''accuracy''), (''cv'', VInt 3), (''verbose'', VInt 1)] = Inr gs \<and>
         ns s ''X_train'' = Some tr \<and> ns s ''y_train'' = Some ytr \<and>
         call_method L gs ''fit'' [tr, ytr] = Inr fitted \<and>
         ns t ''grid_search'' = Some fitted))"
proof (intro conjI impI)
  assume "ns s ''XGBClassifier'' = Some (VFunc ''xgboost.XGBClassifier'') \<and>
    ns s ''accuracy_score'' = Some (VFunc ''sklearn.metrics.accuracy_score'') \<and>
    ns s ''X_train'' = Some xtr \<and> ns s ''y_train'' = Some ytr \<and>
    ns s ''X_test'' = Some xte \<and> ns s ''y_test'' = Some yte"
  then show "map_sum id fst (xgb_evaluate L md g c lr s) =
        sbind (py_int L md) (\<lambda>d. holdout_accuracy L (xgb_params d g c lr) xtr ytr xte yte)"
    by (intro xgb_evaluate_holdout) simp_all
next
  assume "cell_12 L rng s = Inr (u, t)"
  from cell_12_result [OF this] obtain X y xtr xte ytr yte c fs opt ps' w where
    r: "split_call L X y = Inr (VList [xtr, xte, ytr, yte])"
       "maximize L rng (holdout_objective L xtr ytr xte yte) (VObj c fs)
          [(''init_points'', VInt 5), (''n_iter'', VInt 10)] = Inr opt"
    and t: "t = s\<lparr>ns := (ns s)(''np'' \<mapsto> VModule ''numpy'', ''pd'' \<mapsto> VModule ''pandas'',
            ''load_wine'' \<mapsto> VFunc ''sklearn.datasets.load_wine'',
            ''train_test_split'' \<mapsto> VFunc ''sklearn.model_selection.train_test_split'',
            ''XGBClassifier'' \<mapsto> VFunc ''xgboost.XGBClassifier'',
            ''BayesianOptimization'' \<mapsto> VFunc ''bayes_opt.BayesianOptimization'',
            ''accuracy_score'' \<mapsto> VFunc ''sklearn.metrics.accuracy_score'',
            ''wine'' \<mapsto> w, ''X'' \<mapsto> X, ''y'' \<mapsto> y,
            ''X_train'' \<mapsto> xtr, ''X_test'' \<mapsto> xte, ''y_train'' \<mapsto> ytr, ''y_test'' \<mapsto> yte,
            ''xgb_evaluate'' \<mapsto> VFunc ''__main__.xgb_evaluate'',
            ''xgb_bo'' \<mapsto> opt, ''params'' \<mapsto> ps'),
          stdout := stdout s @ [Print [VStr ''Optimized parameters:'', ps']],
          calls := calls s @ [''sklearn.datasets.load_wine'',
            ''sklearn.model_selection.train_test_split'', ''bayes_opt.BayesianOptimization'',
            c @ ''.maximize'']\<rparr>"
    by blast
  have "split_of t = [Some xtr, Some xte, Some ytr, Some yte]" "ns t ''xgb_bo'' = Some opt"
    by (simp_all add: t split_of_def)
  with r show "\<exists>X y xtr xte ytr yte opt opt'.
         split_call L X y = Inr (VList [xtr, xte, ytr, yte]) \<and>
         split_of t = [Some xtr, Some xte, Some ytr, Some yte] \<and>
         maximize L rng (holdout_objective L xtr ytr xte yte) opt
           [(''init_points'', VInt 5), (''n_iter'', VInt 10)] = Inr opt' \<and>
         ns t ''xgb_bo'' = Some opt'"
    by blast
next
  assume "cell_3 L s = Inr (u, t) \<and> ns s ''xgb'' = Some (VModule ''xgboost'')"
  then have h: "cell_3 L s = Inr (u, t)" "ns s ''xgb'' = Some (VModule ''xgboost'')"
    by simp_all
  from cell_3_result [OF h] obtain clf c fs fitted tr ytr bp bs where
    r: "call L ''sklearn.model_selection.GridSearchCV'' [clf, param_grid]
       [(''scoring'', VStr ''accuracy''), (''cv'', VInt 3), (''verbose'', VInt 1)] = Inr (VObj c fs)"
     "ns s ''X_train'' = Some tr" "ns s ''y_train'' = Some ytr"
     "call L (c @ ''.fit'') [VObj c fs, tr, ytr] [] = Inr fitted"
    and t: "t = s\<lparr>ns := (ns s)(''GridSearchCV'' \<mapsto> VFunc ''sklearn.model_selection.GridSearchCV'',
            ''param_grid'' \<mapsto> param_grid, ''clf'' \<mapsto> clf, ''grid_search'' \<mapsto> fitted),
          stdout := stdout s @ [Print [VStr ''Best parameters found: '', bp],
                                Print [VStr ''Best score'', bs]],
          calls := calls s @ [''xgboost.XGBClassifier'', ''sklearn.model_selection.GridSearchCV'',
            c @ ''.fit'']\<rparr>"
    by blast
  have "call_method L (VObj c fs) ''fit'' [tr, ytr] = Inr fitted"
    by (simp add: call_method_def sbind_def method_name_def r(4))
  moreover have "ns t ''grid_search'' = Some fitted" by (simp add: t)
  ultimately show "\<exists>clf gs tr ytr fitted.
         call L ''sklearn.model_selection.GridSearchCV'' [clf, param_grid]
           [(''scoring'', VStr ''accuracy''), (''cv'', VInt 3), (''verbose'', VInt 1)] = Inr gs \<and>
         ns s ''X_train'' = Some tr \<and> ns s ''y_train'' = Some ytr \<and>
         call_method L gs ''fit'' [tr, ytr] = Inr fitted \<and>
         ns t ''grid_search'' = Some fitted"
    using r(1,2,3) by blast
qed

text \<open>
  The theorem at the namespace the stand-in library leaves after cell 12, at the run of
  cell 12 itself, and at the run of cell 3 after cell 2.
\<close>

theorem xgb_evaluate_scores_on_test_set_witness:
  "map_sum id fst (xgb_evaluate stub_lib (VFloat 4.637) (VFloat 0.5) (VFloat 0.6) (VFloat 0.29)
      after_cell_12) =
     sbind (py_int stub_lib (VFloat 4.637)) (\<lambda>d. holdout_accuracy stub_lib
       (xgb_params d (VFloat 0.5) (VFloat 0.6) (VFloat 0.29))
       (VList [VFloat 14.23, VFloat 13.2]) (VList [VInt 0, VInt 1])
       (VList [VFloat 14.23, VFloat 13.2]) (VList [VInt 0, VInt 1])) \<and>
   (\<exists>X y xtr xte ytr yte opt opt'.
      split_call stub_lib X y = Inr (VList [xtr, xte, ytr, yte]) \<and>
      split_of after_cell_12 = [Some xtr, Some xte, Some ytr, Some yte] \<and>
      maximize stub_lib 0 (holdout_objective stub_lib xtr ytr xte yte) opt
        [(''init_points'', VInt 5), (''n_iter'', VInt 10)] = Inr opt' \<and>
      ns after_cell_12 ''xgb_bo'' = Some opt') \<and>
   (\<exists>clf gs tr ytr fitted.
      call stub_lib ''sklearn.model_selection.GridSearchCV'' [clf, param_grid]
        [(''scoring'', VStr ''accuracy''), (''cv'', VInt 3), (''verbose'', VInt 1)] = Inr gs \<and>
      ns after_cell_2 ''X_train'' = Some tr \<and> ns after_cell_2 ''y_train'' = Some ytr \<and>
      call_method stub_lib gs ''fit'' [tr, ytr] = Inr fitted \<and>
      ns (snd (projr (cell_3 stub_lib after_cell_2))) ''grid_search'' = Some fitted)"
proof -
  have n: "ns after_cell_12 ''XGBClassifier'' = Some (VFunc ''xgboost.XGBClassifier'') \<and>
    ns after_cell_12 ''accuracy_score'' = Some (VFunc ''sklearn.metrics.accuracy_score'') \<and>
    ns after_cell_12 ''X_train'' = Some (VList [VFloat 14.23, VFloat 13.2]) \<and>
    ns after_cell_12 ''y_train'' = Some (VList [VInt 0, VInt 1]) \<and>
    ns after_cell_12 ''X_test'' = Some (VList [VFloat 14.23, VFloat 13.2]) \<and>
    ns after_cell_12 ''y_test'' = Some (VList [VInt 0, VInt 1])"
    by code_simp
  have "\<not> isl (cell_3 stub_lib after_cell_2)" by code_simp
  note r3 = Inr_projr [OF this]
  have x: "ns after_cell_2 ''xgb'' = Some (VModule ''xgboost'')" by code_simp
  from xgb_evaluate_scores_on_test_set [where L = stub_lib and s = after_cell_12
      and xtr = "VList [VFloat 14.23, VFloat 13.2]" and ytr = "VList [VInt 0, VInt 1]"
      and xte = "VList [VFloat 14.23, VFloat 13.2]" and yte = "VList [VInt 0, VInt 1]"
      and md = "VFloat 4.637" and g = "VFloat 0.5" and c = "VFloat 0.6" and lr = "VFloat 0.29"] n
  have a: "map_sum id fst (xgb_evaluate stub_lib (VFloat 4.637) (VFloat 0.5) (VFloat 0.6) (VFloat 0.29)
      after_cell_12) =
     sbind (py_int stub_lib (VFloat 4.637)) (\<lambda>d. holdout_accuracy stub_lib
       (xgb_params d (VFloat 0.5) (VFloat 0.6) (VFloat 0.29))
       (VList [VFloat 14.23, VFloat 13.2]) (VList [VInt 0, VInt 1])
       (VList [VFloat 14.23, VFloat 13.2]) (VList [VInt 0, VInt 1]))"
    by blast
  from xgb_evaluate_scores_on_test_set [where L = stub_lib and rng = 0
      and s = "fresh (''bayes_opt'' # base_site)" and u = "()" and t = after_cell_12]
    after_cell_12_eq
  have b: "\<exists>X y xtr xte ytr yte opt opt'.
      split_call stub_lib X y = Inr (VList [xtr, xte, ytr, yte]) \<and>
      split_of after_cell_12 = [Some xtr, Some xte, Some ytr, Some yte] \<and>
      maximize stub_lib 0 (holdout_objective stub_lib xtr ytr xte yte) opt
        [(''init_points'', VInt 5), (''n_iter'', VInt 10)] = Inr opt' \<and>
      ns after_cell_12 ''xgb_bo'' = Some opt'"
    by blast
  from xgb_evaluate_scores_on_test_set [where L = stub_lib and s = after_cell_2
      and u = "fst (projr (cell_3 stub_lib after_cell_2))"
      and t = "snd (projr (cell_3 stub_lib after_cell_2))"] r3 x
  have c: "\<exists>clf gs tr ytr fitted.
      call stub_lib ''sklearn.model_selection.GridSearchCV'' [clf, param_grid]
        [(''scoring'', VStr ''accuracy''), (''cv'', VInt 3), (''verbose'', VInt 1)] = Inr gs \<and>
      ns after_cell_2 ''X_train'' = Some tr \<and> ns after_cell_2 ''y_train'' = Some ytr \<and>
      call_method stub_lib gs ''fit'' [tr, ytr] = Inr fitted \<and>
      ns (snd (projr (cell_3 stub_lib after_cell_2))) ''grid_search'' = Some fitted"
    by blast
  from a b c show ?thesis by blast
qed








end
